theory Spec2Isabelle
  imports Main
begin

section \<open>Exceptions as values\<close>

text \<open>
  The module \<^verbatim>\<open>oncall/auth/__init__.py\<close> raises falcon's \<^verbatim>\<open>HTTPUnauthorized(title,
  description, scheme)\<close> and \<^verbatim>\<open>HTTPForbidden(title, description)\<close>; dictionary reads raise
  \<^verbatim>\<open>KeyError\<close>, a failed tuple unpacking raises \<^verbatim>\<open>ValueError\<close>, a local variable read
  before its assignment raises \<^verbatim>\<open>UnboundLocalError\<close>, and the database driver raises
  \<^verbatim>\<open>DatabaseError\<close> when a scalar subquery yields more than one row.
\<close>

datatype error =
    HTTPUnauthorized string string string
  | HTTPForbidden string string
  | KeyError string
  | ValueError
  | UnboundLocalError
  | DatabaseError

section \<open>The external store\<close>

text \<open>
  The tables the SQL text of the module reads, with the columns it names. String
  comparison in a \<^verbatim>\<open>WHERE\<close> clause is modelled as equality of strings. The column
  \<^verbatim>\<open>csrf_token\<close> may hold NULL, which the driver hands to Python as \<^verbatim>\<open>None\<close>: it is an
  optional string.
\<close>

record user_row =
  user_id :: nat
  user_name :: string
  user_god :: bool

record team_row =
  team_id :: nat
  team_name :: string

record team_user_row =
  tu_team_id :: nat
  tu_user_id :: nat

record team_admin_row =
  ta_team_id :: nat
  ta_user_id :: nat

record application_row =
  application_name :: string
  application_key :: string

record session_row =
  session_id :: string
  session_csrf_token :: "string option"

record database =
  user_table :: "user_row list"
  team_table :: "team_row list"
  team_user_table :: "team_user_row list"
  team_admin_table :: "team_admin_row list"
  application_table :: "application_row list"
  session_table :: "session_row list"

text \<open>
  The state outside a request: the store, the module's global \<^verbatim>\<open>app_key_cache\<close>, and two
  counters that record the effects on the store: \<open>connects\<close> counts the calls of
  \<^verbatim>\<open>db.connect()\<close>, \<open>queries\<close> the calls of \<^verbatim>\<open>cursor.execute\<close>.
\<close>

record world =
  store :: database
  app_key_cache :: "string \<rightharpoonup> string"
  connects :: nat
  queries :: nat

definition db_connect :: "world \<Rightarrow> world" where
  "db_connect w = w\<lparr>connects := Suc (connects w)\<rparr>"

definition cursor_execute :: "world \<Rightarrow> world" where
  "cursor_execute w = w\<lparr>queries := Suc (queries w)\<rparr>"

section \<open>Requests\<close>

text \<open>
  Of a falcon \<^verbatim>\<open>Request\<close> the module reads \<^verbatim>\<open>req.method\<close>, three keys of \<^verbatim>\<open>req.env\<close>,
  the headers through \<^verbatim>\<open>req.get_header\<close> (which yields \<^verbatim>\<open>None\<close> for an absent header) and
  the dictionary \<^verbatim>\<open>req.context\<close>, which it also writes. A beaker session is read as a
  dictionary.
\<close>

type_synonym session = "string \<rightharpoonup> string"

record environ =
  PATH_INFO :: "string option"
  QUERY_STRING :: "string option"
  beaker_session :: "session option"

record request =
  req_method :: string
  req_env :: environ
  req_headers :: "string \<rightharpoonup> string"
  req_context :: "string \<rightharpoonup> string"

definition get_header :: "request \<Rightarrow> string \<Rightarrow> string option" where
  "get_header req name = req_headers req name"

definition context_set :: "request \<Rightarrow> string \<Rightarrow> string \<Rightarrow> request" where
  "context_set req k v = req\<lparr>req_context := (req_context req)(k \<mapsto> v)\<rparr>"

text \<open>Python's truth value of \<^verbatim>\<open>req.get_header(...)\<close>: \<^verbatim>\<open>None\<close> and \<^verbatim>\<open>''\<close> are false.\<close>

definition truthy :: "string option \<Rightarrow> bool" where
  "truthy v = (case v of None \<Rightarrow> False | Some s \<Rightarrow> s \<noteq> [])"

section \<open>Library primitives\<close>

text \<open>
  \<^verbatim>\<open>hmac.new(key, text, hashlib.sha512).digest()\<close> and \<^verbatim>\<open>base64.urlsafe_b64encode\<close> belong
  to Python's library, not to this repository: every function that signs takes them as
  the parameter \<open>P\<close>. \<^verbatim>\<open>streql.equals\<close> decides equality of two strings.
\<close>

record primitives =
  hmac_sha512 :: "string \<Rightarrow> string \<Rightarrow> string"
  urlsafe_b64encode :: "string \<Rightarrow> string"

definition equals :: "string \<Rightarrow> string \<Rightarrow> bool" where
  "equals a b = (a = b)"

subsection \<open>Decimal text of an integer: \<^verbatim>\<open>'%s' % window\<close>\<close>

definition digit_char :: "nat \<Rightarrow> char" where
  "digit_char d = ''0123456789'' ! d"

function str_nat :: "nat \<Rightarrow> string" where
  "str_nat n = (if n < 10 then [digit_char n] else str_nat (n div 10) @ [digit_char (n mod 10)])"
  by pat_completeness auto
termination
  by (relation "measure id") auto

declare str_nat.simps [simp del]

definition str_int :: "int \<Rightarrow> string" where
  "str_int i = (if i < 0 then CHR ''-'' # str_nat (nat (- i)) else str_nat (nat i))"

subsection \<open>\<^verbatim>\<open>str.startswith\<close>, \<^verbatim>\<open>str.split(':', 1)\<close> and unpacking into two names\<close>

definition startswith :: "string \<Rightarrow> string \<Rightarrow> bool" where
  "startswith s p = (take (length p) s = p)"

definition split_colon_1 :: "string \<Rightarrow> string list" where
  "split_colon_1 s =
     (case dropWhile (\<lambda>c. c \<noteq> CHR '':'') s of
        [] \<Rightarrow> [s]
      | _ # rest \<Rightarrow> [takeWhile (\<lambda>c. c \<noteq> CHR '':'') s, rest])"

definition unpack2 :: "string list \<Rightarrow> error + (string \<times> string)" where
  "unpack2 xs = (case xs of [a, b] \<Rightarrow> Inr (a, b) | _ \<Rightarrow> Inl ValueError)"

section \<open>Authorization checks\<close>

text \<open>
  The four checks as the module defines them. (\<^verbatim>\<open>init\<close> rebinds them to functions that
  allow everything when the configuration has \<^verbatim>\<open>debug\<close>.) A check returns nothing or
  raises; the model returns \<open>Inr ()\<close> or the exception, and the world after the queries it
  executed. \<^verbatim>\<open>cursor.rowcount\<close> is the number of rows of the result, and
  \<^verbatim>\<open>(x,) in cursor\<close> holds when a row of the result is \<open>x\<close>.
\<close>

definition is_god :: "string \<Rightarrow> world \<Rightarrow> bool \<times> world" where
  "is_god challenger w =
     (let w1 = cursor_execute (db_connect w);
          rows = [user_id u. u \<leftarrow> user_table (store w1), user_god u \<and> user_name u = challenger];
          is_god = length rows
      in (is_god \<noteq> 0, w1))"

definition quoted :: "string \<Rightarrow> string" where
  "quoted s = CHR 0x22 # s @ [CHR 0x22]"

definition check_user_auth :: "string \<Rightarrow> request \<Rightarrow> world \<Rightarrow> (error + unit) \<times> world" where
  "check_user_auth user req w =
     (if req_context req ''app'' \<noteq> None then (Inr (), w)
      else case req_context req ''user'' of
        None \<Rightarrow> (Inl (KeyError ''user''), w)
      | Some challenger \<Rightarrow>
          if user = challenger then (Inr (), w)
          else
            let w1 = cursor_execute (db_connect w);
                cursor = remdups [user_name u.
                           ta \<leftarrow> team_admin_table (store w1),
                           tu \<leftarrow> team_user_table (store w1), ta_team_id ta = tu_team_id tu,
                           u \<leftarrow> user_table (store w1), user_id u = tu_user_id tu,
                           admin \<leftarrow> user_table (store w1), user_id admin = ta_user_id ta,
                           user_name admin = challenger];
                allowed = (user \<in> set cursor)
            in if allowed then (Inr (), w1)
               else let (god, w2) = is_god challenger w1
                 in if god then (Inr (), w2)
                    else
                   (Inl (HTTPForbidden ''Unauthorized''
                          (''Action not allowed for '' @ quoted challenger)), w2))"

definition check_team_auth :: "string \<Rightarrow> request \<Rightarrow> world \<Rightarrow> (error + unit) \<times> world" where
  "check_team_auth team req w =
     (if req_context req ''app'' \<noteq> None then (Inr (), w)
      else case req_context req ''user'' of
        None \<Rightarrow> (Inl (KeyError ''user''), w)
      | Some challenger \<Rightarrow>
          let w1 = cursor_execute (db_connect w);
              cursor = [team_name t.
                         ta \<leftarrow> team_admin_table (store w1),
                         t \<leftarrow> team_table (store w1), ta_team_id ta = team_id t,
                         u \<leftarrow> user_table (store w1), ta_user_id ta = user_id u,
                         user_name u = challenger];
              allowed = (team \<in> set cursor)
          in if allowed then (Inr (), w1)
             else let (god, w2) = is_god challenger w1
               in if god then (Inr (), w2)
                  else
                 (Inl (HTTPForbidden ''Unauthorized''
                        (''Action not allowed: '' @ quoted challenger @
                         '' is not an admin for '' @ quoted team)), w2))"

text \<open>
  \<^verbatim>\<open>check_calendar_auth\<close> compares \<^verbatim>\<open>team_user.team_id\<close> with the scalar subquery
  \<^verbatim>\<open>(SELECT id FROM team WHERE name = %s)\<close>: no row makes the comparison NULL (no row
  matches), one row gives the id to compare with, more than one row is an error of the
  store.
\<close>

definition check_calendar_auth ::
    "string \<Rightarrow> request \<Rightarrow> string option \<Rightarrow> world \<Rightarrow> (error + unit) \<times> world" where
  "check_calendar_auth team req user w =
     (if req_context req ''app'' \<noteq> None then (Inr (), w)
      else case (if user \<noteq> None then user else req_context req ''user'') of
        None \<Rightarrow> (Inl (KeyError ''user''), w)
      | Some challenger \<Rightarrow>
          (let w1 = cursor_execute (db_connect w);
               subquery = [team_id t. t \<leftarrow> team_table (store w1), team_name t = team]
           in if 1 < length subquery then (Inl DatabaseError, w1)
              else
                let user_in_team = length [user_name u.
                                     tu \<leftarrow> team_user_table (store w1),
                                     u \<leftarrow> user_table (store w1), tu_user_id tu = user_id u,
                                     tu_team_id tu \<in> set subquery \<and> user_name u = challenger]
                in if user_in_team \<noteq> 0 then (Inr (), w1)
                   else let (god, w2) = is_god challenger w1
                     in if god then (Inr (), w2)
                        else
                          (Inl (HTTPForbidden ''Unauthorized''
                                 (''Action not allowed: '' @ quoted challenger @
                                  '' is not part of '' @ quoted team)), w2)))"

definition check_calendar_auth_by_id ::
    "nat \<Rightarrow> request \<Rightarrow> world \<Rightarrow> (error + unit) \<times> world" where
  "check_calendar_auth_by_id tid req w =
     (if req_context req ''app'' \<noteq> None then (Inr (), w)
      else case req_context req ''user'' of
        None \<Rightarrow> (Inl (KeyError ''user''), w)
      | Some challenger \<Rightarrow>
          let w1 = cursor_execute (db_connect w);
              user_in_team = length [user_name u.
                               tu \<leftarrow> team_user_table (store w1),
                               u \<leftarrow> user_table (store w1), tu_user_id tu = user_id u,
                               tu_team_id tu = tid \<and> user_name u = challenger]
          in if user_in_team \<noteq> 0 then (Inr (), w1)
             else let (god, w2) = is_god challenger w1
               in if god then (Inr (), w2)
                  else
                 (Inl (HTTPForbidden ''Unauthorized''
                        (''Action not allowed: '' @ quoted challenger @
                         '' is not a team member'')), w2))"

section \<open>Digest authentication\<close>

definition is_client_digest_valid ::
    "primitives \<Rightarrow> string \<Rightarrow> string \<Rightarrow> int \<Rightarrow> string \<Rightarrow> string \<Rightarrow> string \<Rightarrow> bool" where
  "is_client_digest_valid P client_digest api_key window method path body =
     (let text = str_int window @ '' '' @ method @ '' '' @ path @ '' '' @ body;
          HMAC = hmac_sha512 P api_key text;
          digest = urlsafe_b64encode P HMAC
      in if equals client_digest digest then True else False)"

definition wrong_digest :: error where
  "wrong_digest = HTTPUnauthorized ''Authentication failure'' ''Wrong digest'' []"

text \<open>
  \<open>now\<close> is \<^verbatim>\<open>int(time.time())\<close>, the clock in whole seconds; \<^verbatim>\<open>//\<close> is \<open>div\<close> on \<open>int\<close>.
  The reads of \<^verbatim>\<open>req.env\<close> and \<^verbatim>\<open>req.context['body']\<close> stand before the \<^verbatim>\<open>try\<close>, so their
  \<^verbatim>\<open>KeyError\<close> leaves the function; inside the \<^verbatim>\<open>try\<close>, \<^verbatim>\<open>ValueError\<close> and \<^verbatim>\<open>KeyError\<close>
  become \<open>wrong_digest\<close>, and the \<^verbatim>\<open>HTTPUnauthorized\<close> of an unknown application passes
  through the \<^verbatim>\<open>except\<close> clause.
\<close>

definition authenticate_application ::
    "primitives \<Rightarrow> int \<Rightarrow> string \<Rightarrow> request \<Rightarrow> world \<Rightarrow> (error + unit) \<times> request \<times> world" where
  "authenticate_application P now auth_token req w =
     (if \<not> startswith auth_token ''hmac '' then
        (Inl (HTTPUnauthorized ''Authentication failure'' ''Invalid digest format'' []), req, w)
      else
        let method = req_method req in
        case PATH_INFO (req_env req) of
          None \<Rightarrow> (Inl (KeyError ''PATH_INFO''), req, w)
        | Some path0 \<Rightarrow>
        (case QUERY_STRING (req_env req) of
          None \<Rightarrow> (Inl (KeyError ''QUERY_STRING''), req, w)
        | Some qs \<Rightarrow>
        (let path = (if qs \<noteq> [] then path0 @ ''?'' @ qs else path0) in
         case req_context req ''body'' of
          None \<Rightarrow> (Inl (KeyError ''body''), req, w)
        | Some body \<Rightarrow>
        (case unpack2 (split_colon_1 (drop 5 auth_token)) of
          Inl e \<Rightarrow> (Inl wrong_digest, req, w)
        | Inr (app_name, client_digest) \<Rightarrow>
        (let fetched =
               (if app_key_cache w app_name = None then
                  let w1 = cursor_execute (db_connect w);
                      cursor = [application_key a.
                                 a \<leftarrow> application_table (store w1), application_name a = app_name]
                  in if length cursor > 0
                     then Inr (w1\<lparr>app_key_cache := (app_key_cache w1)(app_name \<mapsto> hd cursor)\<rparr>)
                     else Inl (HTTPUnauthorized ''Authentication failure''
                                 ''Application not found'' [], w1)
                else Inr w)
         in case fetched of
           Inl (e, w1) \<Rightarrow> (Inl e, req, w1)
         | Inr w1 \<Rightarrow>
         (case app_key_cache w1 app_name of
           None \<Rightarrow> (Inl wrong_digest, req, w1)
         | Some api_key \<Rightarrow>
             let window = now div 5 in
             if is_client_digest_valid P client_digest api_key window method path body
             then (Inr (), context_set req ''app'' app_name, w1)
             else if is_client_digest_valid P client_digest api_key (window - 1) method path body
             then (Inr (), context_set req ''app'' app_name, w1)
             else (Inl wrong_digest, req, w1)))))))"

section \<open>Session authentication\<close>

text \<open>
  The source's \<^verbatim>\<open>_authenticate_user\<close>. \<^verbatim>\<open>req.env['beaker.session']\<close> is read before the
  \<^verbatim>\<open>try\<close>; \<^verbatim>\<open>session['user']\<close> and \<^verbatim>\<open>session['_id']\<close> are read inside it, the second one
  as the argument of \<^verbatim>\<open>cursor.execute\<close>, after \<^verbatim>\<open>db.connect()\<close> and before the query runs.
\<close>

definition must_be_logged_in :: error where
  "must_be_logged_in = HTTPUnauthorized ''Unauthorized'' ''User must be logged in'' []"

definition authenticate_user_inner ::
    "request \<Rightarrow> world \<Rightarrow> (error + unit) \<times> request \<times> world" where
  "authenticate_user_inner req w =
     (case beaker_session (req_env req) of
        None \<Rightarrow> (Inl (KeyError ''beaker.session''), req, w)
      | Some session \<Rightarrow>
      (case session ''user'' of
        None \<Rightarrow> (Inl must_be_logged_in, req, w)
      | Some u \<Rightarrow>
      (let req1 = context_set req ''user'' u;
           w1 = db_connect w
       in case session ''_id'' of
        None \<Rightarrow> (Inl must_be_logged_in, req1, w1)
      | Some sid \<Rightarrow>
      (let w2 = cursor_execute w1;
           cursor = [session_csrf_token r. r \<leftarrow> session_table (store w2), session_id r = sid]
       in if length cursor \<noteq> 1 then
            (Inl (HTTPUnauthorized ''Invalid Session'' ''CSRF token missing'' []), req1, w2)
          else
            let token = hd cursor in
            if get_header req1 ''X-CSRF-TOKEN'' \<noteq> token then
              (Inl (HTTPUnauthorized ''Invalid Session'' ''CSRF validation failed'' []), req1, w2)
            else (Inr (), req1, w2)))))"

text \<open>
  \<^verbatim>\<open>init\<close> rebinds the global \<^verbatim>\<open>authenticate_user\<close> to \<^verbatim>\<open>authenticate_user_test_wrapper\<close>
  when the configuration has \<^verbatim>\<open>debug\<close>; otherwise it stays \<^verbatim>\<open>_authenticate_user\<close>.
\<close>

definition authenticate_user_test_wrapper ::
    "request \<Rightarrow> world \<Rightarrow> (error + unit) \<times> request \<times> world" where
  "authenticate_user_test_wrapper req w =
     (case authenticate_user_inner req w of
        (Inl (HTTPUnauthorized t d c), req1, w1) \<Rightarrow>
          (Inr (), context_set req1 ''user'' ''test_user'', w1)
      | r \<Rightarrow> r)"

definition authenticate_user ::
    "bool \<Rightarrow> request \<Rightarrow> world \<Rightarrow> (error + unit) \<times> request \<times> world" where
  "authenticate_user debug req w =
     (if debug then authenticate_user_test_wrapper req w else authenticate_user_inner req w)"

section \<open>The \<^verbatim>\<open>login_required\<close> wrapper\<close>

text \<open>
  A positional argument of the wrapped handler is a falcon \<^verbatim>\<open>Request\<close> or something else.
  The loop binds \<^verbatim>\<open>idx\<close> to the position of the first \<^verbatim>\<open>Request\<close>; without one, reading
  \<^verbatim>\<open>idx\<close> raises. The request is changed in place, so the handler sees the changed one.
\<close>

datatype arg = Request request | Other

fun find_request :: "nat \<Rightarrow> arg list \<Rightarrow> nat option" where
  "find_request i [] = None"
| "find_request i (Request r # args) = Some i"
| "find_request i (Other # args) = find_request (Suc i) args"

definition login_required ::
    "primitives \<Rightarrow> bool \<Rightarrow> int \<Rightarrow> (arg list \<Rightarrow> world \<Rightarrow> (error + 'r) \<times> arg list \<times> world)
       \<Rightarrow> arg list \<Rightarrow> world \<Rightarrow> (error + 'r) \<times> arg list \<times> world" where
  "login_required P debug now func args w =
     (case find_request 0 args of
        None \<Rightarrow> (Inl UnboundLocalError, args, w)
      | Some idx \<Rightarrow>
      (case args ! idx of
        Other \<Rightarrow> (Inl UnboundLocalError, args, w)
      | Request req \<Rightarrow>
      (let auth_token = get_header req ''AUTHORIZATION'';
           (r, req1, w1) =
             (if truthy auth_token then authenticate_application P now (the auth_token) req w
              else authenticate_user debug req w)
       in case r of
            Inl e \<Rightarrow> (Inl e, args[idx := Request req1], w1)
          | Inr u \<Rightarrow> func (args[idx := Request req1]) w1)))"

section \<open>The digest protocol in the specification's words\<close>

text \<open>
  The specification's \<open>canonicalPath\<close>, its digest input string
  \<^verbatim>\<open>"<window> <method> <canonicalPath> <body>"\<close>, the expected digest
  \<^verbatim>\<open>base64url(HMAC-SHA512(K, input))\<close>, and its acceptance rule: the client's digest equals
  the expected digest of the server's window or of the window before it. They are written
  from the specification, to be compared with \<open>authenticate_application\<close>.
\<close>

definition canonicalPath :: "string \<Rightarrow> string \<Rightarrow> string" where
  "canonicalPath path queryString = (if queryString = [] then path else path @ ''?'' @ queryString)"

definition digest_input :: "int \<Rightarrow> string \<Rightarrow> string \<Rightarrow> string \<Rightarrow> string" where
  "digest_input window method cpath body =
     str_int window @ '' '' @ method @ '' '' @ cpath @ '' '' @ body"

definition expected :: "primitives \<Rightarrow> string \<Rightarrow> int \<Rightarrow> string \<Rightarrow> string \<Rightarrow> string \<Rightarrow> string" where
  "expected P K window method cpath body =
     urlsafe_b64encode P (hmac_sha512 P K (digest_input window method cpath body))"

definition digest_accepted ::
    "primitives \<Rightarrow> string \<Rightarrow> int \<Rightarrow> string \<Rightarrow> string \<Rightarrow> string \<Rightarrow> string \<Rightarrow> bool" where
  "digest_accepted P K now method cpath body digest =
     (digest = expected P K (now div 5) method cpath body
      \<or> digest = expected P K (now div 5 - 1) method cpath body)"

text \<open>
  The key the server holds for an application name: the cached one, else the key of the
  first row the store has for the name.
\<close>

definition stored_keys :: "world \<Rightarrow> string \<Rightarrow> string list" where
  "stored_keys w app =
     [application_key a. a \<leftarrow> application_table (store w), application_name a = app]"

definition registered_key :: "world \<Rightarrow> string \<Rightarrow> string option" where
  "registered_key w app =
     (case app_key_cache w app of
        Some k \<Rightarrow> Some k
      | None \<Rightarrow> (case stored_keys w app of [] \<Rightarrow> None | k # rest \<Rightarrow> Some k))"

text \<open>The anti-forgery tokens the store holds for a session id.\<close>

definition stored_tokens :: "world \<Rightarrow> string \<Rightarrow> string option list" where
  "stored_tokens w sid =
     [session_csrf_token r. r \<leftarrow> session_table (store w), session_id r = sid]"

definition application_not_found :: error where
  "application_not_found =
     HTTPUnauthorized ''Authentication failure'' ''Application not found'' []"

definition invalid_digest_format :: error where
  "invalid_digest_format =
     HTTPUnauthorized ''Authentication failure'' ''Invalid digest format'' []"

text \<open>The world after a cache miss that found the key \<open>k\<close> in the store.\<close>

definition fetched :: "world \<Rightarrow> string \<Rightarrow> string \<Rightarrow> world" where
  "fetched w app k =
     (cursor_execute (db_connect w))\<lparr>app_key_cache := (app_key_cache w)(app \<mapsto> k)\<rparr>"

section \<open>The authorization policy in the specification's words\<close>







section \<open>Example data\<close>

text \<open>
  A small store, a request and stand-ins for the library primitives, used to instantiate
  the theorems below at concrete inputs. The stand-in for HMAC joins key and text; it is
  not HMAC-SHA512, and nothing but the instances rests on it.
\<close>

definition example_primitives :: primitives where
  "example_primitives =
     \<lparr>hmac_sha512 = (\<lambda>key text. key @ ''|'' @ text), urlsafe_b64encode = (\<lambda>s. s)\<rparr>"

definition example_store :: database where
  "example_store =
     \<lparr>user_table = [\<lparr>user_id = 1, user_name = ''alice'', user_god = False\<rparr>,
                    \<lparr>user_id = 2, user_name = ''root'', user_god = True\<rparr>,
                    \<lparr>user_id = 3, user_name = ''bob'', user_god = False\<rparr>],
      team_table = [\<lparr>team_id = 7, team_name = ''sre''\<rparr>],
      team_user_table = [\<lparr>tu_team_id = 7, tu_user_id = 1\<rparr>, \<lparr>tu_team_id = 7, tu_user_id = 3\<rparr>],
      team_admin_table = [\<lparr>ta_team_id = 7, ta_user_id = 3\<rparr>],
      application_table = [\<lparr>application_name = ''svc-a'', application_key = ''K''\<rparr>,
                           \<lparr>application_name = ''ops:web'', application_key = ''K2''\<rparr>],
      session_table = [\<lparr>session_id = ''s1'', session_csrf_token = Some ''tok''\<rparr>,
                       \<lparr>session_id = ''s0'', session_csrf_token = Some []\<rparr>,
                       \<lparr>session_id = ''s2'', session_csrf_token = None\<rparr>]\<rparr>"



definition example_world :: world where
  "example_world = \<lparr>store = example_store, app_key_cache = Map.empty, connects = 0, queries = 0\<rparr>"

definition example_request :: request where
  "example_request =
     \<lparr>req_method = ''GET'',
      req_env = \<lparr>PATH_INFO = Some ''/widgets/42'', QUERY_STRING = Some [],
                 beaker_session = Some [''user'' \<mapsto> ''alice'', ''_id'' \<mapsto> ''s1'']\<rparr>,
      req_headers = [''X-CSRF-TOKEN'' \<mapsto> ''tok''],
      req_context = [''body'' \<mapsto> []]\<rparr>"

text \<open>A handler to wrap: it returns the user the request context holds.\<close>

definition example_handler :: "arg list \<Rightarrow> world \<Rightarrow> (error + string option) \<times> arg list \<times> world" where
  "example_handler args w =
     (case args of
        [Other, Request req, Other] \<Rightarrow> (Inr (req_context req ''user''), args, w)
      | _ \<Rightarrow> (Inl ValueError, args, w))"

section \<open>Auxiliary facts\<close>

subsection \<open>Parsing the header and printing the window\<close>

lemma unpack2_split_no_colon:
  "CHR '':'' \<notin> set s \<Longrightarrow> unpack2 (split_colon_1 s) = Inl ValueError"
proof -
  assume "CHR '':'' \<notin> set s"
  then have "dropWhile (\<lambda>c. c \<noteq> CHR '':'') s = []"
    by (auto simp: dropWhile_eq_Nil_conv)
  then show ?thesis
    by (simp only: split_colon_1_def unpack2_def list.case)
qed

lemma unpack2_split_colon:
  assumes "CHR '':'' \<notin> set a"
  shows "unpack2 (split_colon_1 (a @ CHR '':'' # d)) = Inr (a, d)"
proof -
  have "dropWhile (\<lambda>c. c \<noteq> CHR '':'') (a @ CHR '':'' # d) = CHR '':'' # d"
    using assms by (auto simp: dropWhile_append3)
  moreover have "takeWhile (\<lambda>c. c \<noteq> CHR '':'') (a @ CHR '':'' # d) = a"
    using assms by (auto simp: takeWhile_tail)
  ultimately show ?thesis
    by (simp add: split_colon_1_def unpack2_def)
qed

lemma startswith_hmac: "startswith (''hmac '' @ s) ''hmac ''"
  by (simp add: startswith_def)

lemma digit_char_inj:
  assumes "a < 10" "b < 10" "digit_char a = digit_char b"
  shows "a = b"
proof -
  have d: "distinct ''0123456789''" by simp
  have "a < length ''0123456789''" "b < length ''0123456789''"
    using assms by simp_all
  with d assms(3) show ?thesis
    unfolding digit_char_def by (simp only: nth_eq_iff_index_eq)
qed

lemma digit_char_not_minus: "d < 10 \<Longrightarrow> digit_char d \<noteq> CHR ''-''"
proof -
  assume "d < 10"
  then have "d < length ''0123456789''" by simp
  then have "digit_char d \<in> set ''0123456789''"
    unfolding digit_char_def by (rule nth_mem)
  then show ?thesis by auto
qed

lemma str_nat_nonempty: "str_nat n \<noteq> []"
  by (subst str_nat.simps) simp

lemma str_nat_no_minus: "CHR ''-'' \<notin> set (str_nat n)"
proof (induction n rule: str_nat.induct)
  case (1 n)
  show ?case
  proof (cases "n < 10")
    case True
    then show ?thesis
      using digit_char_not_minus [of n] by (subst str_nat.simps) auto
  next
    case False
    then show ?thesis
      using 1 digit_char_not_minus [of "n mod 10"] by (subst str_nat.simps) auto
  qed
qed

lemma str_nat_length_one: "length (str_nat n) = Suc 0 \<longleftrightarrow> n < 10"
proof (cases "n < 10")
  case True then show ?thesis by (subst str_nat.simps) simp
next
  case False
  have "str_nat (n div 10) \<noteq> []" by (rule str_nat_nonempty)
  with False show ?thesis
    by (subst str_nat.simps) simp
qed

lemma str_nat_inj: "str_nat a = str_nat b \<Longrightarrow> a = b"
proof (induction a arbitrary: b rule: str_nat.induct)
  case (1 a)
  show ?case
  proof (cases "a < 10")
    case True
    then have "length (str_nat a) = Suc 0" by (simp only: str_nat_length_one)
    then have b: "b < 10" using "1.prems" by (simp add: str_nat_length_one)
    from True b "1.prems" have "digit_char a = digit_char b"
      by (simp add: str_nat.simps [of a] str_nat.simps [of b])
    with True b show ?thesis by (rule digit_char_inj)
  next
    case False
    then have "length (str_nat a) \<noteq> Suc 0" by (simp only: str_nat_length_one not_False_eq_True)
    then have b: "\<not> b < 10" using "1.prems" by (simp add: str_nat_length_one)
    from False b "1.prems"
    have "str_nat (a div 10) @ [digit_char (a mod 10)] = str_nat (b div 10) @ [digit_char (b mod 10)]"
      by (simp add: str_nat.simps [of a] str_nat.simps [of b])
    then have q: "str_nat (a div 10) = str_nat (b div 10)"
      and r: "digit_char (a mod 10) = digit_char (b mod 10)"
      by simp_all
    from "1.IH" [OF False q] have "a div 10 = b div 10" .
    moreover have "a mod 10 = b mod 10"
      using r by (intro digit_char_inj) simp_all
    ultimately show ?thesis
      by (metis div_mult_mod_eq)
  qed
qed

lemma str_int_inj: "str_int i = str_int j \<Longrightarrow> i = j"
proof -
  assume eq: "str_int i = str_int j"
  have hd_neg: "\<And>x. x < 0 \<Longrightarrow> hd (str_int x) = CHR ''-''"
    by (simp add: str_int_def)
  have hd_pos: "\<And>x. \<not> x < 0 \<Longrightarrow> hd (str_int x) \<noteq> CHR ''-''"
  proof -
    fix x :: int assume "\<not> x < 0"
    then have "str_int x = str_nat (nat x)" by (simp add: str_int_def)
    moreover have "hd (str_nat (nat x)) \<in> set (str_nat (nat x))"
      using str_nat_nonempty by simp
    ultimately show "hd (str_int x) \<noteq> CHR ''-''"
      using str_nat_no_minus [of "nat x"] by metis
  qed
  show "i = j"
  proof (cases "i < 0")
    case True
    then have "j < 0" using eq hd_neg [of i] hd_pos [of j] by metis
    with True eq have "str_nat (nat (- i)) = str_nat (nat (- j))"
      by (simp add: str_int_def)
    then have "nat (- i) = nat (- j)" by (rule str_nat_inj)
    with True \<open>j < 0\<close> show ?thesis by simp
  next
    case False
    then have "\<not> j < 0" using eq hd_neg [of j] hd_pos [of i] by metis
    with False eq have "str_nat (nat i) = str_nat (nat j)"
      by (simp add: str_int_def)
    then have "nat i = nat j" by (rule str_nat_inj)
    with False \<open>\<not> j < 0\<close> show ?thesis by simp
  qed
qed

subsection \<open>The three outcomes of the key lookup\<close>

lemma world_simps [simp]:
  "store (db_connect w) = store w" "store (cursor_execute w) = store w"
  "app_key_cache (db_connect w) = app_key_cache w" "app_key_cache (cursor_execute w) = app_key_cache w"
  "queries (db_connect w) = queries w" "queries (cursor_execute w) = Suc (queries w)"
  "connects (db_connect w) = Suc (connects w)" "connects (cursor_execute w) = connects w"
  by (simp_all add: db_connect_def cursor_execute_def)

lemma stored_keys_after_query [simp]:
  "stored_keys (cursor_execute (db_connect w)) app = stored_keys w app"
  by (simp add: stored_keys_def)

lemma is_client_digest_valid_expected:
  "is_client_digest_valid P d K window method (if qs \<noteq> [] then path @ ''?'' @ qs else path) body
     = (d = expected P K window method (canonicalPath path qs) body)"
  by (simp add: is_client_digest_valid_def expected_def digest_input_def canonicalPath_def
        equals_def Let_def)

lemma authenticate_application_hit:
  assumes "startswith auth_token ''hmac ''"
    and "PATH_INFO (req_env req) = Some path"
    and "QUERY_STRING (req_env req) = Some qs"
    and "req_context req ''body'' = Some body"
    and "unpack2 (split_colon_1 (drop 5 auth_token)) = Inr (app_name, client_digest)"
    and "app_key_cache w app_name = Some K"
  shows "authenticate_application P now auth_token req w =
           (if digest_accepted P K now (req_method req) (canonicalPath path qs) body client_digest
            then (Inr (), context_set req ''app'' app_name, w)
            else (Inl wrong_digest, req, w))"
  using assms
  by (simp add: authenticate_application_def Let_def is_client_digest_valid_expected
        digest_accepted_def del: split_paired_All)

lemma authenticate_application_miss_found:
  assumes "startswith auth_token ''hmac ''"
    and "PATH_INFO (req_env req) = Some path"
    and "QUERY_STRING (req_env req) = Some qs"
    and "req_context req ''body'' = Some body"
    and "unpack2 (split_colon_1 (drop 5 auth_token)) = Inr (app_name, client_digest)"
    and "app_key_cache w app_name = None"
    and "stored_keys w app_name = K # rest"
  shows "authenticate_application P now auth_token req w =
           (if digest_accepted P K now (req_method req) (canonicalPath path qs) body client_digest
            then (Inr (), context_set req ''app'' app_name, fetched w app_name K)
            else (Inl wrong_digest, req, fetched w app_name K))"
  using assms
  by (simp add: authenticate_application_def Let_def is_client_digest_valid_expected
        digest_accepted_def stored_keys_def [symmetric] fetched_def)

lemma authenticate_application_miss_not_found:
  assumes "startswith auth_token ''hmac ''"
    and "PATH_INFO (req_env req) = Some path"
    and "QUERY_STRING (req_env req) = Some qs"
    and "req_context req ''body'' = Some body"
    and "unpack2 (split_colon_1 (drop 5 auth_token)) = Inr (app_name, client_digest)"
    and "app_key_cache w app_name = None"
    and "stored_keys w app_name = []"
  shows "authenticate_application P now auth_token req w =
           (Inl application_not_found, req, cursor_execute (db_connect w))"
  using assms
  by (simp add: authenticate_application_def Let_def stored_keys_def [symmetric]
        application_not_found_def)

subsection \<open>The example request\<close>

lemma example_request_parts:
  "PATH_INFO (req_env example_request) = Some ''/widgets/42''"
  "QUERY_STRING (req_env example_request) = Some []"
  "req_context example_request ''body'' = Some []"
  "req_method example_request = ''GET''"
  by (simp_all add: example_request_def)

lemma example_session:
  "beaker_session (req_env example_request) = Some [''user'' \<mapsto> ''alice'', ''_id'' \<mapsto> ''s1'']"
  by (simp add: example_request_def)

lemma example_tokens:
  "stored_tokens example_world ''s1'' = [Some ''tok'']"
  "stored_tokens example_world ''s0'' = [Some []]"
  "stored_tokens example_world ''s2'' = [None]"
  "stored_tokens example_world ''s9'' = []"
  by (simp_all add: stored_tokens_def example_world_def example_store_def)

subsection \<open>Session authentication, case by case\<close>

lemma stored_tokens_after_query [simp]:
  "stored_tokens (cursor_execute (db_connect w)) sid = stored_tokens w sid"
  by (simp add: stored_tokens_def)

lemma authenticate_user_inner_cases:
  assumes "beaker_session (req_env req) = Some session"
  shows "authenticate_user_inner req w =
     (case session ''user'' of
        None \<Rightarrow> (Inl must_be_logged_in, req, w)
      | Some u \<Rightarrow>
         (case session ''_id'' of
            None \<Rightarrow> (Inl must_be_logged_in, context_set req ''user'' u, db_connect w)
          | Some sid \<Rightarrow>
             (if length (stored_tokens w sid) \<noteq> 1 then
                (Inl (HTTPUnauthorized ''Invalid Session'' ''CSRF token missing'' []),
                 context_set req ''user'' u, cursor_execute (db_connect w))
              else if req_headers req ''X-CSRF-TOKEN'' \<noteq> hd (stored_tokens w sid) then
                (Inl (HTTPUnauthorized ''Invalid Session'' ''CSRF validation failed'' []),
                 context_set req ''user'' u, cursor_execute (db_connect w))
              else (Inr (), context_set req ''user'' u, cursor_execute (db_connect w)))))"
  using assms
  by (simp add: authenticate_user_inner_def Let_def stored_tokens_def [symmetric]
        get_header_def context_set_def split: option.splits)

subsection \<open>The position \<open>find_request\<close> yields\<close>

lemma find_request_Some:
  "find_request i args = Some idx \<Longrightarrow> i \<le> idx \<and> idx - i < length args \<and> (\<exists>r. args ! (idx - i) = Request r)"
proof (induction i args rule: find_request.induct)
  case (1 i)
  then show ?case by simp
next
  case (2 i r args)
  then show ?case by simp
next
  case (3 i args)
  then have "Suc i \<le> idx \<and> idx - Suc i < length args \<and> (\<exists>r. args ! (idx - Suc i) = Request r)"
    by simp
  then show ?case
    by (auto simp: nth_Cons' Suc_diff_Suc)
qed

subsection \<open>Verification with the key the server holds\<close>

lemma authenticate_application_registered:
  assumes "startswith auth_token ''hmac ''"
    and "PATH_INFO (req_env req) = Some path"
    and "QUERY_STRING (req_env req) = Some qs"
    and "req_context req ''body'' = Some body"
    and "unpack2 (split_colon_1 (drop 5 auth_token)) = Inr (app_name, client_digest)"
    and "registered_key w app_name = Some K"
  shows "fst (authenticate_application P now auth_token req w) =
           (if digest_accepted P K now (req_method req) (canonicalPath path qs) body client_digest
            then Inr () else Inl wrong_digest)"
    and "fst (snd (authenticate_application P now auth_token req w)) =
           (if digest_accepted P K now (req_method req) (canonicalPath path qs) body client_digest
            then context_set req ''app'' app_name else req)"
proof -
  show "fst (authenticate_application P now auth_token req w) =
           (if digest_accepted P K now (req_method req) (canonicalPath path qs) body client_digest
            then Inr () else Inl wrong_digest)"
  proof (cases "app_key_cache w app_name")
    case None
    with assms(6) obtain rest where "stored_keys w app_name = K # rest"
      by (auto simp: registered_key_def split: list.splits)
    from authenticate_application_miss_found [OF assms(1-5) None this] show ?thesis by simp
  next
    case (Some k)
    with assms(6) have "app_key_cache w app_name = Some K" by (simp add: registered_key_def)
    from authenticate_application_hit [OF assms(1-5) this] show ?thesis by simp
  qed
  show "fst (snd (authenticate_application P now auth_token req w)) =
           (if digest_accepted P K now (req_method req) (canonicalPath path qs) body client_digest
            then context_set req ''app'' app_name else req)"
  proof (cases "app_key_cache w app_name")
    case None
    with assms(6) obtain rest where "stored_keys w app_name = K # rest"
      by (auto simp: registered_key_def split: list.splits)
    from authenticate_application_miss_found [OF assms(1-5) None this] show ?thesis by simp
  next
    case (Some k)
    with assms(6) have "app_key_cache w app_name = Some K" by (simp add: registered_key_def)
    from authenticate_application_hit [OF assms(1-5) this] show ?thesis by simp
  qed
qed

lemma digest_input_inj:
  "digest_input v method cpath body = digest_input v' method cpath body \<Longrightarrow> v = v'"
  by (simp add: digest_input_def str_int_inj)

lemma header_parses:
  assumes "CHR '':'' \<notin> set app"
  shows "startswith (''hmac '' @ app @ '':'' @ d) ''hmac ''"
    and "unpack2 (split_colon_1 (drop 5 (''hmac '' @ app @ '':'' @ d))) = Inr (app, d)"
  using unpack2_split_colon [OF assms, of d]
  by (simp_all add: startswith_def)

lemma example_keys:
  "registered_key example_world ''svc-a'' = Some ''K''"
  "registered_key example_world ''ops:web'' = Some ''K2''"
  "app_key_cache example_world ''ops'' = None"
  "stored_keys example_world ''ops'' = []"
  "app_key_cache example_world ''svc-a'' = None"
  "stored_keys example_world ''svc-a'' = [''K'']"
  by (simp_all add: registered_key_def stored_keys_def example_world_def example_store_def)

lemma str_int_200: "str_int 200 = ''200''" "str_int 199 = ''199''"
  by code_simp+

subsection \<open>The world after \<open>authenticate_application\<close>\<close>

lemma fetched_simps [simp]:
  "app_key_cache (fetched w app k) = (app_key_cache w)(app \<mapsto> k)"
  "queries (fetched w app k) = Suc (queries w)"
  "connects (fetched w app k) = Suc (connects w)"
  "store (fetched w app k) = store w"
  by (simp_all add: fetched_def)

lemma authenticate_application_world:
  assumes "startswith auth_token ''hmac ''"
    and "PATH_INFO (req_env req) = Some path"
    and "QUERY_STRING (req_env req) = Some qs"
    and "req_context req ''body'' = Some body"
    and "unpack2 (split_colon_1 (drop 5 auth_token)) = Inr (app_name, client_digest)"
  shows "snd (snd (authenticate_application P now auth_token req w)) =
           (case app_key_cache w app_name of
              Some k \<Rightarrow> w
            | None \<Rightarrow> (case stored_keys w app_name of
                         [] \<Rightarrow> cursor_execute (db_connect w)
                       | k # rest \<Rightarrow> fetched w app_name k))"
proof (cases "app_key_cache w app_name")
  case (Some k)
  from authenticate_application_hit [OF assms Some] Some show ?thesis by simp
next
  case None
  show ?thesis
  proof (cases "stored_keys w app_name")
    case Nil
    from authenticate_application_miss_not_found [OF assms None Nil] None Nil
    show ?thesis by simp
  next
    case (Cons k rest)
    from authenticate_application_miss_found [OF assms None Cons] None Cons
    show ?thesis by simp
  qed
qed

lemma example_unknown_app:
  "app_key_cache example_world ''nope'' = None"
  "stored_keys example_world ''nope'' = []"
  by (simp_all add: stored_keys_def example_world_def example_store_def)

subsection \<open>The verdict of each authorization check\<close>








section \<open>The window of tolerance\<close>

text \<open>
  C1, as the code has it. Let the application \<open>app\<close> have a name without \<^verbatim>\<open>:\<close>, let the
  server hold the key \<open>K\<close> for it (in the cache, or else in the store), and let the header be
  \<^verbatim>\<open>hmac <app>:<digest>\<close> with the digest
  \<^verbatim>\<open>base64url(HMAC-SHA512(K, "<w> <method> <canonicalPath> <body>"))\<close> of the window
  \<open>w = signed_at div 5\<close>. When the server's window \<open>now div 5\<close> is \<open>w\<close> or \<open>w + 1\<close>,
  \<open>authenticate_application\<close> returns normally and the request context holds \<open>app\<close> under
  \<^verbatim>\<open>'app'\<close>. When the server's window is \<open>w + 2\<close> or later, it fails with
  \<^verbatim>\<open>HTTPUnauthorized\<close> and the description \<^verbatim>\<open>Wrong digest\<close>, provided the two library
  primitives do not map two different ones of the three digest inputs involved (those of the
  windows \<open>w\<close>, \<open>now div 5 - 1\<close> and \<open>now div 5\<close>) to the same digest. The proof shows
  that the digest inputs of different windows differ.
\<close>

theorem digest_window_tolerance:
  assumes "PATH_INFO (req_env req) = Some path"
    and "QUERY_STRING (req_env req) = Some qs"
    and "req_context req ''body'' = Some body"
    and "registered_key w app = Some K"
    and "CHR '':'' \<notin> set app"
    and "auth_token = ''hmac '' @ app @ '':'' @
           expected P K (signed_at div 5) (req_method req) (canonicalPath path qs) body"
  shows "(now div 5 = signed_at div 5 \<or> now div 5 = signed_at div 5 + 1 \<longrightarrow>
            fst (authenticate_application P now auth_token req w) = Inr ()
            \<and> fst (snd (authenticate_application P now auth_token req w))
                = context_set req ''app'' app)
       \<and> (signed_at div 5 + 2 \<le> now div 5
            \<and> inj_on (\<lambda>text. urlsafe_b64encode P (hmac_sha512 P K text))
                 ((\<lambda>v. digest_input v (req_method req) (canonicalPath path qs) body)
                    ` {signed_at div 5, now div 5 - 1, now div 5}) \<longrightarrow>
            fst (authenticate_application P now auth_token req w)
              = Inl (HTTPUnauthorized ''Authentication failure'' ''Wrong digest'' [])
            \<and> fst (snd (authenticate_application P now auth_token req w)) = req)"
proof -
  let ?d = "\<lambda>v. expected P K v (req_method req) (canonicalPath path qs) body"
  let ?R = "authenticate_application P now auth_token req w"
  have sw: "startswith auth_token ''hmac ''"
    and up: "unpack2 (split_colon_1 (drop 5 auth_token)) = Inr (app, ?d (signed_at div 5))"
    unfolding assms(6) using header_parses [OF assms(5)] by blast+
  note r = authenticate_application_registered [OF sw assms(1-3) up assms(4), of P now]
  have accept: "fst ?R = Inr () \<and> fst (snd ?R) = context_set req ''app'' app"
    if "now div 5 = signed_at div 5 \<or> now div 5 = signed_at div 5 + 1"
  proof -
    from that have "digest_accepted P K now (req_method req) (canonicalPath path qs) body
                      (?d (signed_at div 5))"
      by (auto simp: digest_accepted_def)
    with r show ?thesis by simp
  qed
  have reject: "fst ?R = Inl (HTTPUnauthorized ''Authentication failure'' ''Wrong digest'' [])
                \<and> fst (snd ?R) = req"
    if late: "signed_at div 5 + 2 \<le> now div 5"
      and inj: "inj_on (\<lambda>text. urlsafe_b64encode P (hmac_sha512 P K text))
                 ((\<lambda>v. digest_input v (req_method req) (canonicalPath path qs) body)
                    ` {signed_at div 5, now div 5 - 1, now div 5})"
  proof -
    have differ: "?d (signed_at div 5) \<noteq> ?d v"
      if v: "v \<in> {now div 5 - 1, now div 5}" for v
    proof
      assume eq: "?d (signed_at div 5) = ?d v"
      have "digest_input (signed_at div 5) (req_method req) (canonicalPath path qs) body
              = digest_input v (req_method req) (canonicalPath path qs) body"
        using inj eq v unfolding expected_def by (auto dest!: inj_onD)
      then have "signed_at div 5 = v" by (rule digest_input_inj)
      with v late show False by auto
    qed
    then have "\<not> digest_accepted P K now (req_method req) (canonicalPath path qs) body
                      (?d (signed_at div 5))"
      by (simp add: digest_accepted_def)
    with r show ?thesis by (simp add: wrong_digest_def)
  qed
  from accept reject show ?thesis by blast
qed

theorem digest_window_tolerance_witness:
  "fst (authenticate_application example_primitives 1004
          (''hmac svc-a:'' @ expected example_primitives ''K'' (1000 div 5) ''GET''
                               (canonicalPath ''/widgets/42'' []) [])
          example_request example_world) = Inr ()
   \<and> fst (authenticate_application example_primitives 1007
          (''hmac svc-a:'' @ expected example_primitives ''K'' (1000 div 5) ''GET''
                               (canonicalPath ''/widgets/42'' []) [])
          example_request example_world) = Inr ()
   \<and> fst (authenticate_application example_primitives 1011
          (''hmac svc-a:'' @ expected example_primitives ''K'' (1000 div 5) ''GET''
                               (canonicalPath ''/widgets/42'' []) [])
          example_request example_world)
       = Inl (HTTPUnauthorized ''Authentication failure'' ''Wrong digest'' [])"
proof -
  let ?T = "''hmac svc-a:'' @ expected example_primitives ''K'' (1000 div 5) ''GET''
                               (canonicalPath ''/widgets/42'' []) []"
  have colon: "CHR '':'' \<notin> set ''svc-a''" by simp
  have tok: "?T = ''hmac '' @ ''svc-a'' @ '':'' @
           expected example_primitives ''K'' (1000 div 5) (req_method example_request)
             (canonicalPath ''/widgets/42'' []) []"
    by (simp add: example_request_parts)
  have inj: "inj_on (\<lambda>text. urlsafe_b64encode example_primitives
                               (hmac_sha512 example_primitives ''K'' text)) A" for A
    by (simp add: inj_on_def example_primitives_def)
  note t = digest_window_tolerance [OF example_request_parts(1-3) example_keys(1) colon tok]
  from t [of 1004] t [of 1007] t [of 1011] inj show ?thesis
    by simp
qed

text \<open>
  C1 as the specification states it fails for an application whose name has a \<^verbatim>\<open>:\<close> in it.
  The example store registers \<^verbatim>\<open>ops:web\<close> with the key \<^verbatim>\<open>K2\<close>; for the header
  \<^verbatim>\<open>hmac ops:web:<digest>\<close>, checked in the very window of the signature,
  \<^verbatim>\<open>auth_token[5:].split(':', 1)\<close> yields the application name \<^verbatim>\<open>ops\<close>, which no row of the
  store has, and the request fails with \<^verbatim>\<open>Application not found\<close>.
\<close>

theorem colon_in_name_counterexample:
  "registered_key example_world ''ops:web'' = Some ''K2''
   \<and> fst (authenticate_application example_primitives 1000
            (''hmac ops:web:'' @ expected example_primitives ''K2'' (1000 div 5) ''GET''
                                   (canonicalPath ''/widgets/42'' []) [])
            example_request example_world)
       = Inl (HTTPUnauthorized ''Authentication failure'' ''Application not found'' [])"
proof -
  let ?d = "expected example_primitives ''K2'' (1000 div 5) ''GET'' (canonicalPath ''/widgets/42'' []) []"
  have colon: "CHR '':'' \<notin> set ''ops''" by simp
  have up: "unpack2 (split_colon_1 (drop 5 (''hmac ops:web:'' @ ?d))) = Inr (''ops'', ''web:'' @ ?d)"
    using unpack2_split_colon [OF colon, of "''web:'' @ ?d"] by simp
  have sw: "startswith (''hmac ops:web:'' @ ?d) ''hmac ''"
    by (simp add: startswith_def)
  have "authenticate_application example_primitives 1000 (''hmac ops:web:'' @ ?d)
            example_request example_world
        = (Inl application_not_found, example_request, cursor_execute (db_connect example_world))"
    by (rule authenticate_application_miss_not_found
          [OF sw example_request_parts(1-3) up example_keys(3,4)])
  then show ?thesis
    by (simp add: example_keys application_not_found_def)
qed

text \<open>
  The proviso on the primitives cannot be dropped. HMAC-SHA512 has 64 bytes of output, so the
  expected digests of a request are finitely many, while the windows are not: two windows at
  least two apart have the same digest, and a digest signed in the earlier one is accepted in
  the later one.
\<close>

lemma finitely_many_digests_collide:
  assumes "finite (range (\<lambda>v::int. expected P K v method cpath body))"
  shows "\<exists>v v'. v + 2 \<le> v' \<and> expected P K v method cpath body = expected P K v' method cpath body"
proof -
  let ?f = "\<lambda>n::nat. expected P K (2 * int n) method cpath body"
  have "range ?f \<subseteq> range (\<lambda>v::int. expected P K v method cpath body)"
    by blast
  with assms have "finite (range ?f)"
    by (rule finite_subset [rotated])
  with infinite_UNIV_nat obtain a where inf: "infinite {n \<in> UNIV. ?f n = ?f a}"
    by (rule pigeonhole_infinite [THEN bexE])
  then have "\<not> (\<exists>m. \<forall>n \<in> {n \<in> UNIV. ?f n = ?f a}. n < m)"
    using finite_nat_set_iff_bounded [of "{n \<in> UNIV. ?f n = ?f a}"] by blast
  then have "\<exists>n \<in> {n \<in> UNIV. ?f n = ?f a}. \<not> n < Suc a"
    by blast
  then obtain n where "\<not> n < Suc a" and "?f n = ?f a"
    by blast
  then have "a < n" by simp
  note \<open>a < n\<close> \<open>?f n = ?f a\<close>
  then have "2 * int a + 2 \<le> 2 * int n" and "?f a = ?f n"
    by simp_all
  then show ?thesis by blast
qed

lemma late_digest_accepted_on_collision:
  assumes "PATH_INFO (req_env req) = Some path"
    and "QUERY_STRING (req_env req) = Some qs"
    and "req_context req ''body'' = Some body"
    and "registered_key w app = Some K"
    and "CHR '':'' \<notin> set app"
    and "finite (range (\<lambda>v::int. expected P K v (req_method req) (canonicalPath path qs) body))"
  shows "\<exists>signed_at now. signed_at div 5 + 2 \<le> now div 5
           \<and> fst (authenticate_application P now
                    (''hmac '' @ app @ '':'' @
                       expected P K (signed_at div 5) (req_method req) (canonicalPath path qs) body)
                    req w) = Inr ()"
proof -
  let ?d = "\<lambda>v. expected P K v (req_method req) (canonicalPath path qs) body"
  from finitely_many_digests_collide [OF assms(6)]
  obtain v v' where late: "v + 2 \<le> v'" and same: "?d v = ?d v'"
    by blast
  let ?t = "''hmac '' @ app @ '':'' @ ?d v"
  have sw: "startswith ?t ''hmac ''"
    and up: "unpack2 (split_colon_1 (drop 5 ?t)) = Inr (app, ?d v)"
    using header_parses [OF assms(5), of "?d v"] by blast+
  have acc: "digest_accepted P K (5 * v') (req_method req) (canonicalPath path qs) body (?d v)"
    using same by (simp add: digest_accepted_def)
  have "fst (authenticate_application P (5 * v') ?t req w) = Inr ()"
    using authenticate_application_registered(1) [OF sw assms(1-3) up assms(4), of P "5 * v'"] acc
    by simp
  then have "(5 * v) div 5 + 2 \<le> (5 * v') div 5
     \<and> fst (authenticate_application P (5 * v')
            (''hmac '' @ app @ '':'' @ ?d ((5 * v) div 5)) req w) = Inr ()"
    using late by simp
  then show ?thesis by blast
qed

section \<open>Malformed signature headers\<close>

text \<open>
  C2, as the code has it. A header that does not start with \<^verbatim>\<open>hmac \<close> fails with
  \<^verbatim>\<open>HTTPUnauthorized\<close> and the description \<^verbatim>\<open>Invalid digest format\<close>, before anything of the
  request is read. A header that has the prefix but no \<^verbatim>\<open>:\<close> after it fails, for a request
  that has a path, a query string and a body, with the description \<^verbatim>\<open>Wrong digest\<close>: the
  unpacking of \<^verbatim>\<open>split(':', 1)\<close> raises \<^verbatim>\<open>ValueError\<close>, which the \<^verbatim>\<open>except\<close> clause turns
  into that error. In both cases request and world stay as they were.
\<close>

theorem malformed_header:
  "(\<not> startswith auth_token ''hmac '' \<longrightarrow>
      authenticate_application P now auth_token req w =
        (Inl (HTTPUnauthorized ''Authentication failure'' ''Invalid digest format'' []), req, w))
   \<and> (startswith auth_token ''hmac '' \<and> CHR '':'' \<notin> set (drop 5 auth_token)
        \<and> PATH_INFO (req_env req) \<noteq> None \<and> QUERY_STRING (req_env req) \<noteq> None
        \<and> req_context req ''body'' \<noteq> None \<longrightarrow>
      authenticate_application P now auth_token req w =
        (Inl (HTTPUnauthorized ''Authentication failure'' ''Wrong digest'' []), req, w))"
proof (intro conjI impI)
  assume "\<not> startswith auth_token ''hmac ''"
  then show "authenticate_application P now auth_token req w =
        (Inl (HTTPUnauthorized ''Authentication failure'' ''Invalid digest format'' []), req, w)"
    by (simp add: authenticate_application_def)
next
  assume a: "startswith auth_token ''hmac '' \<and> CHR '':'' \<notin> set (drop 5 auth_token)
        \<and> PATH_INFO (req_env req) \<noteq> None \<and> QUERY_STRING (req_env req) \<noteq> None
        \<and> req_context req ''body'' \<noteq> None"
  then have "unpack2 (split_colon_1 (drop 5 auth_token)) = Inl ValueError"
    by (simp add: unpack2_split_no_colon)
  with a show "authenticate_application P now auth_token req w =
        (Inl (HTTPUnauthorized ''Authentication failure'' ''Wrong digest'' []), req, w)"
    by (auto simp: authenticate_application_def wrong_digest_def Let_def)
qed

theorem malformed_header_witness:
  "authenticate_application example_primitives 1000 ''Basic abc'' example_request example_world =
     (Inl (HTTPUnauthorized ''Authentication failure'' ''Invalid digest format'' []),
      example_request, example_world)
   \<and> authenticate_application example_primitives 1000 ''hmac svc-a'' example_request example_world =
     (Inl (HTTPUnauthorized ''Authentication failure'' ''Wrong digest'' []),
      example_request, example_world)"
  using malformed_header [of "''Basic abc''" example_primitives 1000 example_request example_world]
    malformed_header [of "''hmac svc-a''" example_primitives 1000 example_request example_world]
  by (simp add: startswith_def example_request_parts)

text \<open>
  C2 as the specification states it fails: the header \<^verbatim>\<open>hmac svc-a\<close> has the prefix and no
  separator, and the description of the error is \<^verbatim>\<open>Wrong digest\<close>, not
  \<^verbatim>\<open>Invalid digest format\<close>.
\<close>

theorem missing_separator_counterexample:
  "startswith ''hmac svc-a'' ''hmac '' \<and> CHR '':'' \<notin> set (drop 5 ''hmac svc-a'')
   \<and> fst (authenticate_application example_primitives 1000 ''hmac svc-a'' example_request
            example_world)
      = Inl (HTTPUnauthorized ''Authentication failure'' ''Wrong digest'' [])
   \<and> fst (authenticate_application example_primitives 1000 ''hmac svc-a'' example_request
            example_world)
      \<noteq> Inl (HTTPUnauthorized ''Authentication failure'' ''Invalid digest format'' [])"
  by (simp add: authenticate_application_def startswith_def example_request_parts
      split_colon_1_def unpack2_def wrong_digest_def)

section \<open>An application identity bypasses the authorization checks\<close>

text \<open>
  C3. When the request context holds the key \<^verbatim>\<open>'app'\<close>, each of \<open>check_user_auth\<close>,
  \<open>check_team_auth\<close>, \<open>check_calendar_auth\<close> and \<open>check_calendar_auth_by_id\<close> returns
  normally, whatever its other arguments are, and leaves the world as it was: no
  connection is opened and no query is executed, so no \<^verbatim>\<open>HTTPForbidden\<close> can arise.
\<close>

theorem app_bypasses_authorization:
  assumes "req_context req ''app'' = Some a"
  shows "check_user_auth user req w = (Inr (), w)
       \<and> check_team_auth team req w = (Inr (), w)
       \<and> check_calendar_auth team req opt_user w = (Inr (), w)
       \<and> check_calendar_auth_by_id tid req w = (Inr (), w)"
  using assms
  by (simp add: check_user_auth_def check_team_auth_def check_calendar_auth_def
        check_calendar_auth_by_id_def)

theorem app_bypasses_authorization_witness:
  "check_user_auth ''bob'' (context_set example_request ''app'' ''svc-a'') example_world
     = (Inr (), example_world)
   \<and> check_team_auth ''sre'' (context_set example_request ''app'' ''svc-a'') example_world
     = (Inr (), example_world)
   \<and> check_calendar_auth ''sre'' (context_set example_request ''app'' ''svc-a'') None example_world
     = (Inr (), example_world)
   \<and> check_calendar_auth_by_id 7 (context_set example_request ''app'' ''svc-a'') example_world
     = (Inr (), example_world)"
proof -
  have app: "req_context (context_set example_request ''app'' ''svc-a'') ''app'' = Some ''svc-a''"
    by (simp add: context_set_def)
  show ?thesis
    using app_bypasses_authorization [OF app] by simp
qed

section \<open>The superuser override\<close>




section \<open>Session authentication\<close>

text \<open>
  C5, as the code has it. For a request that carries a session, \<open>authenticate_user_inner\<close>
  (the source's \<^verbatim>\<open>_authenticate_user\<close>) fails with \<^verbatim>\<open>User must be logged in\<close> when the session
  has no user; fails with \<^verbatim>\<open>CSRF token missing\<close> when the store does not hold exactly one
  token for the session id; fails with \<^verbatim>\<open>CSRF validation failed\<close> when the value of the
  \<^verbatim>\<open>X-CSRF-TOKEN\<close> header (\<^verbatim>\<open>None\<close> when the header is absent) differs from the stored token
  (\<^verbatim>\<open>None\<close> when the column is NULL), that is: when the header is absent and the stored token
  is a string, when it is empty and the stored token is not the empty string, or when it is a
  string other than the stored token; and otherwise returns normally with the session's user
  stored in the request context under \<^verbatim>\<open>'user'\<close>.
\<close>

theorem session_authentication:
  assumes "beaker_session (req_env req) = Some session"
  shows "(session ''user'' = None \<longrightarrow>
            fst (authenticate_user_inner req w) =
              Inl (HTTPUnauthorized ''Unauthorized'' ''User must be logged in'' []))
       \<and> (session ''user'' = Some u \<and> session ''_id'' = Some sid
            \<and> length (stored_tokens w sid) \<noteq> 1 \<longrightarrow>
            fst (authenticate_user_inner req w) =
              Inl (HTTPUnauthorized ''Invalid Session'' ''CSRF token missing'' []))
       \<and> (session ''user'' = Some u \<and> session ''_id'' = Some sid
            \<and> stored_tokens w sid = [token]
            \<and> (get_header req ''X-CSRF-TOKEN'' = None \<and> token \<noteq> None
                 \<or> get_header req ''X-CSRF-TOKEN'' = Some [] \<and> token \<noteq> Some []
                 \<or> (\<exists>h. get_header req ''X-CSRF-TOKEN'' = Some h \<and> token \<noteq> Some h)) \<longrightarrow>
            fst (authenticate_user_inner req w) =
              Inl (HTTPUnauthorized ''Invalid Session'' ''CSRF validation failed'' []))
       \<and> (session ''user'' = Some u \<and> session ''_id'' = Some sid
            \<and> stored_tokens w sid = [token] \<and> get_header req ''X-CSRF-TOKEN'' = token \<longrightarrow>
            fst (authenticate_user_inner req w) = Inr ()
            \<and> req_context (fst (snd (authenticate_user_inner req w))) ''user'' = Some u)"
  by (auto simp: authenticate_user_inner_cases [OF assms] must_be_logged_in_def get_header_def
        context_set_def)

theorem session_authentication_witness:
  "fst (authenticate_user_inner example_request example_world) = Inr ()
   \<and> req_context (fst (snd (authenticate_user_inner example_request example_world))) ''user''
       = Some ''alice''
   \<and> fst (authenticate_user_inner (example_request\<lparr>req_headers := Map.empty\<rparr>) example_world)
       = Inl (HTTPUnauthorized ''Invalid Session'' ''CSRF validation failed'' [])
   \<and> fst (authenticate_user_inner
            (example_request\<lparr>req_env := (req_env example_request)
               \<lparr>beaker_session := Some [''user'' \<mapsto> ''alice'', ''_id'' \<mapsto> ''s9'']\<rparr>\<rparr>) example_world)
       = Inl (HTTPUnauthorized ''Invalid Session'' ''CSRF token missing'' [])
   \<and> fst (authenticate_user_inner
            (example_request\<lparr>req_env := (req_env example_request)
               \<lparr>beaker_session := Some Map.empty\<rparr>\<rparr>) example_world)
       = Inl (HTTPUnauthorized ''Unauthorized'' ''User must be logged in'' [])"
proof -
  let ?no_header = "example_request\<lparr>req_headers := Map.empty\<rparr>"
  let ?no_token = "example_request\<lparr>req_env := (req_env example_request)
               \<lparr>beaker_session := Some [''user'' \<mapsto> ''alice'', ''_id'' \<mapsto> ''s9'']\<rparr>\<rparr>"
  let ?no_user = "example_request\<lparr>req_env := (req_env example_request)
               \<lparr>beaker_session := Some Map.empty\<rparr>\<rparr>"
  have s1: "beaker_session (req_env ?no_header) = Some [''user'' \<mapsto> ''alice'', ''_id'' \<mapsto> ''s1'']"
    by (simp add: example_request_def)
  have s2: "beaker_session (req_env ?no_token) = Some [''user'' \<mapsto> ''alice'', ''_id'' \<mapsto> ''s9'']"
    by simp
  have s3: "beaker_session (req_env ?no_user) = Some Map.empty"
    by simp
  have h0: "get_header example_request ''X-CSRF-TOKEN'' = Some ''tok''"
    by (simp add: get_header_def example_request_def)
  have h1: "get_header ?no_header ''X-CSRF-TOKEN'' = None"
    by (simp add: get_header_def)
  show ?thesis
    using session_authentication [OF example_session,
        where u = "''alice''" and sid = "''s1''" and w = example_world and token = "Some ''tok''"]
      session_authentication [OF s1,
        where u = "''alice''" and sid = "''s1''" and w = example_world and token = "Some ''tok''"]
      session_authentication [OF s2,
        where u = "''alice''" and sid = "''s9''" and w = example_world and token = "Some ''tok''"]
      session_authentication [OF s3,
        where u = "''alice''" and sid = "''s1''" and w = example_world and token = "Some ''tok''"]
    by (simp add: example_tokens h0 h1)
qed

text \<open>
  C5 as the specification states it fails for the empty stored token: the session \<^verbatim>\<open>s0\<close> of
  the example store has the token \<^verbatim>\<open>''\<close>, the request sends an empty \<^verbatim>\<open>X-CSRF-TOKEN\<close>, and
  the comparison \<^verbatim>\<open>req.get_header('X-CSRF-TOKEN') != token\<close> is false, so the request is
  accepted. (It fails for a NULL stored token too, as the lemma after it shows: the session
  \<^verbatim>\<open>s2\<close> has no token, and a request without the header is accepted.)
\<close>

theorem empty_token_counterexample:
  "stored_tokens example_world ''s0'' = [Some []]
   \<and> get_header (example_request\<lparr>req_headers := [''X-CSRF-TOKEN'' \<mapsto> []]\<rparr>) ''X-CSRF-TOKEN''
       = Some []
   \<and> fst (authenticate_user_inner
            (example_request
               \<lparr>req_env := (req_env example_request)
                  \<lparr>beaker_session := Some [''user'' \<mapsto> ''alice'', ''_id'' \<mapsto> ''s0'']\<rparr>,
                req_headers := [''X-CSRF-TOKEN'' \<mapsto> []]\<rparr>) example_world)
       = Inr ()"
  by (simp add: example_tokens get_header_def authenticate_user_inner_cases)

lemma null_token_accepts_absent_header:
  "stored_tokens example_world ''s2'' = [None]
   \<and> get_header (example_request\<lparr>req_headers := Map.empty\<rparr>) ''X-CSRF-TOKEN'' = None
   \<and> fst (authenticate_user_inner
            (example_request
               \<lparr>req_env := (req_env example_request)
                  \<lparr>beaker_session := Some [''user'' \<mapsto> ''alice'', ''_id'' \<mapsto> ''s2'']\<rparr>,
                req_headers := Map.empty\<rparr>) example_world)
       = Inr ()"
  by (simp add: example_tokens get_header_def authenticate_user_inner_cases)

section \<open>What the digest is computed over\<close>

text \<open>
  C6. For a header that parses into an application name and a digest, and a key \<open>K\<close> the
  server holds for that name, \<open>authenticate_application\<close> accepts exactly when the digest is
  \<^verbatim>\<open>base64url(HMAC-SHA512(K, s))\<close> for the string \<open>s\<close> made of the window, the method, the
  canonical path and the body, joined by single spaces, for the server's window or the one
  before; the canonical path is the path when the query string is empty and
  \<^verbatim>\<open>path + "?" + queryString\<close> otherwise. Since this holds for every choice of the two library
  primitives, the string hashed is exactly that one. Hence two requests with the same method,
  canonical path and body get the same verdict for the same header, clock and world,
  whatever else differs between them.
\<close>

theorem digest_input_string:
  assumes "startswith auth_token ''hmac ''"
    and "unpack2 (split_colon_1 (drop 5 auth_token)) = Inr (app_name, client_digest)"
    and "registered_key w app_name = Some K"
    and "PATH_INFO (req_env req) = Some path"
    and "QUERY_STRING (req_env req) = Some qs"
    and "req_context req ''body'' = Some body"
  shows "fst (authenticate_application P now auth_token req w) =
           (if client_digest = urlsafe_b64encode P (hmac_sha512 P K
                 (str_int (now div 5) @ '' '' @ req_method req @ '' '' @ canonicalPath path qs
                    @ '' '' @ body))
             \<or> client_digest = urlsafe_b64encode P (hmac_sha512 P K
                 (str_int (now div 5 - 1) @ '' '' @ req_method req @ '' '' @ canonicalPath path qs
                    @ '' '' @ body))
            then Inr ()
            else Inl (HTTPUnauthorized ''Authentication failure'' ''Wrong digest'' []))
       \<and> (\<forall>req' path' qs'.
             req_method req' = req_method req
             \<and> PATH_INFO (req_env req') = Some path' \<and> QUERY_STRING (req_env req') = Some qs'
             \<and> canonicalPath path' qs' = canonicalPath path qs
             \<and> req_context req' ''body'' = Some body \<longrightarrow>
             fst (authenticate_application P now auth_token req' w)
               = fst (authenticate_application P now auth_token req w))"
proof -
  note r = authenticate_application_registered(1)
  have "fst (authenticate_application P now auth_token req w) =
          (if digest_accepted P K now (req_method req) (canonicalPath path qs) body client_digest
           then Inr () else Inl wrong_digest)"
    by (rule r [OF assms(1) assms(4-6) assms(2,3)])
  moreover have "fst (authenticate_application P now auth_token req' w) =
          (if digest_accepted P K now (req_method req) (canonicalPath path qs) body client_digest
           then Inr () else Inl wrong_digest)"
    if "req_method req' = req_method req"
      and "PATH_INFO (req_env req') = Some path'" and "QUERY_STRING (req_env req') = Some qs'"
      and "canonicalPath path' qs' = canonicalPath path qs"
      and "req_context req' ''body'' = Some body"
    for req' path' qs'
    using r [OF assms(1) that(2,3,5) assms(2,3), of P now] that(1,4) by simp
  ultimately show ?thesis
    by (simp add: digest_accepted_def expected_def digest_input_def wrong_digest_def)
qed

theorem digest_input_string_witness:
  "fst (authenticate_application example_primitives 1000 ''hmac svc-a:K|200 GET /widgets/42 ''
          example_request example_world) = Inr ()
   \<and> fst (authenticate_application example_primitives 1000 ''hmac svc-a:K|200 GET /widgets/42 ''
          (example_request\<lparr>req_env := (req_env example_request)
              \<lparr>PATH_INFO := Some ''/widgets/42'', QUERY_STRING := Some []\<rparr>,
            req_headers := Map.empty\<rparr>) example_world)
       = fst (authenticate_application example_primitives 1000
          ''hmac svc-a:K|200 GET /widgets/42 '' example_request example_world)
   \<and> fst (authenticate_application example_primitives 1000 ''hmac svc-a:K|200 GET /widgets/43 ''
          example_request example_world)
       = Inl (HTTPUnauthorized ''Authentication failure'' ''Wrong digest'' [])"
proof -
  let ?t = "''hmac svc-a:K|200 GET /widgets/42 ''"
  let ?t' = "''hmac svc-a:K|200 GET /widgets/43 ''"
  let ?req' = "example_request\<lparr>req_env := (req_env example_request)
              \<lparr>PATH_INFO := Some ''/widgets/42'', QUERY_STRING := Some []\<rparr>,
            req_headers := Map.empty\<rparr>"
  have colon: "CHR '':'' \<notin> set ''svc-a''" by simp
  have sw: "startswith ?t ''hmac ''" "startswith ?t' ''hmac ''"
    by (simp_all add: startswith_def)
  have up: "unpack2 (split_colon_1 (drop 5 ?t)) = Inr (''svc-a'', ''K|200 GET /widgets/42 '')"
    using unpack2_split_colon [OF colon, of "''K|200 GET /widgets/42 ''"] by simp
  have up': "unpack2 (split_colon_1 (drop 5 ?t')) = Inr (''svc-a'', ''K|200 GET /widgets/43 '')"
    using unpack2_split_colon [OF colon, of "''K|200 GET /widgets/43 ''"] by simp
  note a = digest_input_string [OF sw(1) up example_keys(1) example_request_parts(1-3),
      of example_primitives 1000]
  note b = digest_input_string [OF sw(2) up' example_keys(1) example_request_parts(1-3),
      of example_primitives 1000]
  have first: "fst (authenticate_application example_primitives 1000 ?t example_request
                 example_world) = Inr ()"
    using a [THEN conjunct1]
    by (simp add: example_primitives_def example_request_parts canonicalPath_def str_int_200)
  have third: "fst (authenticate_application example_primitives 1000 ?t' example_request
                 example_world) = Inl (HTTPUnauthorized ''Authentication failure'' ''Wrong digest'' [])"
    using b [THEN conjunct1]
    by (simp add: example_primitives_def example_request_parts canonicalPath_def str_int_200)
  have second: "fst (authenticate_application example_primitives 1000 ?t ?req' example_world)
       = fst (authenticate_application example_primitives 1000 ?t example_request example_world)"
  proof -
    have same: "req_method ?req' = req_method example_request
             \<and> PATH_INFO (req_env ?req') = Some ''/widgets/42''
             \<and> QUERY_STRING (req_env ?req') = Some []
             \<and> canonicalPath ''/widgets/42'' [] = canonicalPath ''/widgets/42'' []
             \<and> req_context ?req' ''body'' = Some []"
      by (simp add: example_request_parts)
    from a [THEN conjunct2, THEN spec, of ?req', THEN spec, of "''/widgets/42''",
        THEN spec, of "[]"] same
    show ?thesis by (rule mp)
  qed
  from first second third show ?thesis by (intro conjI)
qed

section \<open>The application key cache\<close>

text \<open>
  C7. Let the header parse into the application name \<open>app_name\<close> and a digest, for a request
  with a path, a query string and a body. On a cache miss \<open>authenticate_application\<close> executes
  one query. If the store has no row for the name, the call fails with
  \<^verbatim>\<open>HTTPUnauthorized\<close> and the description \<^verbatim>\<open>Application not found\<close>, and the cache is as
  before (no negative entry). If the store has a row, the key of its first row is cached
  under the name. On a cache hit the world is unchanged: no connection, no query. No call
  removes or changes an entry the cache holds. Once the name is cached, every later
  verification of a header for that name leaves the world as it is, so it performs no lookup.
  After a miss that found nothing, a call on a store that by then has a row for the name
  executes a query again and caches the key.
\<close>

theorem application_key_cache:
  assumes "startswith auth_token ''hmac ''"
    and "PATH_INFO (req_env req) = Some path"
    and "QUERY_STRING (req_env req) = Some qs"
    and "req_context req ''body'' = Some body"
    and "unpack2 (split_colon_1 (drop 5 auth_token)) = Inr (app_name, client_digest)"
  shows "(app_key_cache w app_name = None \<and> stored_keys w app_name = [] \<longrightarrow>
            fst (authenticate_application P now auth_token req w)
              = Inl (HTTPUnauthorized ''Authentication failure'' ''Application not found'' [])
            \<and> app_key_cache (snd (snd (authenticate_application P now auth_token req w)))
                = app_key_cache w
            \<and> queries (snd (snd (authenticate_application P now auth_token req w)))
                = Suc (queries w))
       \<and> (\<forall>k rest. app_key_cache w app_name = None \<and> stored_keys w app_name = k # rest \<longrightarrow>
            app_key_cache (snd (snd (authenticate_application P now auth_token req w)))
                = (app_key_cache w)(app_name \<mapsto> k)
            \<and> queries (snd (snd (authenticate_application P now auth_token req w)))
                = Suc (queries w))
       \<and> (app_key_cache w app_name \<noteq> None \<longrightarrow>
            snd (snd (authenticate_application P now auth_token req w)) = w)
       \<and> (\<forall>a k. app_key_cache w a = Some k \<longrightarrow>
            app_key_cache (snd (snd (authenticate_application P now auth_token req w))) a = Some k)
       \<and> (app_key_cache (snd (snd (authenticate_application P now auth_token req w))) app_name
             \<noteq> None \<longrightarrow>
           (\<forall>now' auth_token' client_digest' req' path' qs' body'.
              startswith auth_token' ''hmac ''
              \<and> PATH_INFO (req_env req') = Some path' \<and> QUERY_STRING (req_env req') = Some qs'
              \<and> req_context req' ''body'' = Some body'
              \<and> unpack2 (split_colon_1 (drop 5 auth_token')) = Inr (app_name, client_digest') \<longrightarrow>
              snd (snd (authenticate_application P now' auth_token' req'
                     (snd (snd (authenticate_application P now auth_token req w)))))
                = snd (snd (authenticate_application P now auth_token req w))))
       \<and> (app_key_cache w app_name = None \<and> stored_keys w app_name = [] \<longrightarrow>
           (\<forall>db' k rest.
              stored_keys (snd (snd (authenticate_application P now auth_token req w))
                             \<lparr>store := db'\<rparr>) app_name = k # rest \<longrightarrow>
              snd (snd (authenticate_application P now auth_token req
                     (snd (snd (authenticate_application P now auth_token req w))
                        \<lparr>store := db'\<rparr>)))
                = fetched (snd (snd (authenticate_application P now auth_token req w))
                             \<lparr>store := db'\<rparr>) app_name k))"
proof -
  let ?R = "authenticate_application P now auth_token req w"
  note W = authenticate_application_world [OF assms, of P now w]
  have c1: "fst ?R = Inl (HTTPUnauthorized ''Authentication failure'' ''Application not found'' [])
            \<and> app_key_cache (snd (snd ?R)) = app_key_cache w
            \<and> queries (snd (snd ?R)) = Suc (queries w)"
    if "app_key_cache w app_name = None \<and> stored_keys w app_name = []"
    using authenticate_application_miss_not_found [OF assms, of w P now] that
    by (simp add: application_not_found_def)
  have c2: "app_key_cache (snd (snd ?R)) = (app_key_cache w)(app_name \<mapsto> k)
            \<and> queries (snd (snd ?R)) = Suc (queries w)"
    if "app_key_cache w app_name = None \<and> stored_keys w app_name = k # rest" for k rest
    using W that by simp
  have c3: "snd (snd ?R) = w" if "app_key_cache w app_name \<noteq> None"
    using W that by auto
  have c4: "app_key_cache (snd (snd ?R)) a = Some k" if "app_key_cache w a = Some k" for a k
    using W that by (auto split: option.splits list.splits)
  have c5: "snd (snd (authenticate_application P now' auth_token' req' (snd (snd ?R))))
              = snd (snd ?R)"
    if "app_key_cache (snd (snd ?R)) app_name \<noteq> None"
      and "startswith auth_token' ''hmac ''
              \<and> PATH_INFO (req_env req') = Some path' \<and> QUERY_STRING (req_env req') = Some qs'
              \<and> req_context req' ''body'' = Some body'
              \<and> unpack2 (split_colon_1 (drop 5 auth_token')) = Inr (app_name, client_digest')"
    for now' auth_token' client_digest' req' path' qs' body'
  proof -
    from that(2) have
      "snd (snd (authenticate_application P now' auth_token' req' (snd (snd ?R)))) =
           (case app_key_cache (snd (snd ?R)) app_name of
              Some k \<Rightarrow> snd (snd ?R)
            | None \<Rightarrow> (case stored_keys (snd (snd ?R)) app_name of
                         [] \<Rightarrow> cursor_execute (db_connect (snd (snd ?R)))
                       | k # rest \<Rightarrow> fetched (snd (snd ?R)) app_name k))"
      by (intro authenticate_application_world) simp_all
    with that(1) show ?thesis by auto
  qed
  have c6: "snd (snd (authenticate_application P now auth_token req
                     (snd (snd ?R)\<lparr>store := db'\<rparr>)))
                = fetched (snd (snd ?R)\<lparr>store := db'\<rparr>) app_name k"
    if "app_key_cache w app_name = None \<and> stored_keys w app_name = []"
      and "stored_keys (snd (snd ?R)\<lparr>store := db'\<rparr>) app_name = k # rest"
    for db' k rest
  proof -
    from c1 [OF that(1)] that(1)
    have "app_key_cache (snd (snd ?R)\<lparr>store := db'\<rparr>) app_name = None"
      by simp
    with authenticate_application_world [OF assms, of P now "snd (snd ?R)\<lparr>store := db'\<rparr>"] that(2)
    show ?thesis by simp
  qed
  show ?thesis
    using c1 c2 c3 c4 c5 c6 by blast
qed

theorem application_key_cache_witness:
  "fst (authenticate_application example_primitives 1000 ''hmac nope:x'' example_request
          example_world)
     = Inl (HTTPUnauthorized ''Authentication failure'' ''Application not found'' [])
   \<and> app_key_cache (snd (snd (authenticate_application example_primitives 1000 ''hmac nope:x''
          example_request example_world))) = app_key_cache example_world
   \<and> queries (snd (snd (authenticate_application example_primitives 1000 ''hmac nope:x''
          example_request example_world))) = Suc (queries example_world)
   \<and> app_key_cache (snd (snd (authenticate_application example_primitives 1000 ''hmac svc-a:x''
          example_request example_world))) = (app_key_cache example_world)(''svc-a'' \<mapsto> ''K'')
   \<and> queries (snd (snd (authenticate_application example_primitives 1000 ''hmac svc-a:x''
          example_request example_world))) = Suc (queries example_world)
   \<and> snd (snd (authenticate_application example_primitives 1005 ''hmac svc-a:y'' example_request
          (snd (snd (authenticate_application example_primitives 1000 ''hmac svc-a:x''
             example_request example_world)))))
       = snd (snd (authenticate_application example_primitives 1000 ''hmac svc-a:x''
             example_request example_world))"
proof -
  let ?W = "snd (snd (authenticate_application example_primitives 1000 ''hmac svc-a:x''
             example_request example_world))"
  have c1: "CHR '':'' \<notin> set ''nope''" and c2: "CHR '':'' \<notin> set ''svc-a''" by simp_all
  have sw: "startswith ''hmac nope:x'' ''hmac ''" "startswith ''hmac svc-a:x'' ''hmac ''"
      "startswith ''hmac svc-a:y'' ''hmac ''"
    by (simp_all add: startswith_def)
  have up1: "unpack2 (split_colon_1 (drop 5 ''hmac nope:x'')) = Inr (''nope'', ''x'')"
    using unpack2_split_colon [OF c1, of "''x''"] by simp
  have up2: "unpack2 (split_colon_1 (drop 5 ''hmac svc-a:x'')) = Inr (''svc-a'', ''x'')"
    using unpack2_split_colon [OF c2, of "''x''"] by simp
  have up3: "unpack2 (split_colon_1 (drop 5 ''hmac svc-a:y'')) = Inr (''svc-a'', ''y'')"
    using unpack2_split_colon [OF c2, of "''y''"] by simp
  note n = application_key_cache [OF sw(1) example_request_parts(1-3) up1,
      of example_world example_primitives 1000]
  note s = application_key_cache [OF sw(2) example_request_parts(1-3) up2,
      of example_world example_primitives 1000]
  have unknown: "fst (authenticate_application example_primitives 1000 ''hmac nope:x''
          example_request example_world)
     = Inl (HTTPUnauthorized ''Authentication failure'' ''Application not found'' [])
   \<and> app_key_cache (snd (snd (authenticate_application example_primitives 1000 ''hmac nope:x''
          example_request example_world))) = app_key_cache example_world
   \<and> queries (snd (snd (authenticate_application example_primitives 1000 ''hmac nope:x''
          example_request example_world))) = Suc (queries example_world)"
    using n [THEN conjunct1] example_unknown_app by (rule mp [OF _ conjI])
  have known: "app_key_cache ?W = (app_key_cache example_world)(''svc-a'' \<mapsto> ''K'')
      \<and> queries ?W = Suc (queries example_world)"
    using s [THEN conjunct2, THEN conjunct1, THEN spec, of "''K''", THEN spec, of "[]"]
      example_keys(5,6)
    by (rule mp [OF _ conjI])
  then have cached: "app_key_cache ?W ''svc-a'' \<noteq> None" by simp
  have again: "startswith ''hmac svc-a:y'' ''hmac ''
              \<and> PATH_INFO (req_env example_request) = Some ''/widgets/42''
              \<and> QUERY_STRING (req_env example_request) = Some []
              \<and> req_context example_request ''body'' = Some []
              \<and> unpack2 (split_colon_1 (drop 5 ''hmac svc-a:y'')) = Inr (''svc-a'', ''y'')"
    using sw(3) example_request_parts(1-3) up3 by (intro conjI)
  have later: "snd (snd (authenticate_application example_primitives 1005 ''hmac svc-a:y''
                  example_request ?W)) = ?W"
    using s [THEN conjunct2, THEN conjunct2, THEN conjunct2, THEN conjunct2, THEN conjunct1,
        THEN mp, OF cached, THEN spec, of 1005, THEN spec, of "''hmac svc-a:y''",
        THEN spec, of "''y''", THEN spec, of example_request, THEN spec, of "''/widgets/42''",
        THEN spec, of "[]", THEN spec, of "[]"] again
    by (rule mp)
  from unknown known later show ?thesis by blast
qed

section \<open>Which authenticator \<open>login_required\<close> calls\<close>

text \<open>
  C9. The wrapper tests the truth value of \<^verbatim>\<open>req.get_header('AUTHORIZATION')\<close>. A header
  that is present with the empty string as its value is false, like an absent one: the
  request goes to \<open>authenticate_user\<close>, and the handler runs on its outcome. Only a
  non-empty value \<open>t\<close> goes to \<open>authenticate_application\<close>, as the token \<open>t\<close>.
\<close>

theorem login_required_routing:
  assumes "find_request 0 args = Some idx" and "args ! idx = Request req"
  shows "(get_header req ''AUTHORIZATION'' = Some [] \<or> get_header req ''AUTHORIZATION'' = None \<longrightarrow>
            login_required P debug now func args w =
              (case authenticate_user debug req w of
                 (Inl e, req1, w1) \<Rightarrow> (Inl e, args[idx := Request req1], w1)
               | (Inr u, req1, w1) \<Rightarrow> func (args[idx := Request req1]) w1))
       \<and> (\<forall>t. get_header req ''AUTHORIZATION'' = Some t \<and> t \<noteq> [] \<longrightarrow>
            login_required P debug now func args w =
              (case authenticate_application P now t req w of
                 (Inl e, req1, w1) \<Rightarrow> (Inl e, args[idx := Request req1], w1)
               | (Inr u, req1, w1) \<Rightarrow> func (args[idx := Request req1]) w1))"
  using assms
  by (auto simp: login_required_def truthy_def Let_def split: prod.splits sum.splits)

theorem login_required_routing_witness:
  "fst (login_required example_primitives False 1000 example_handler
      [Other, Request (example_request\<lparr>req_headers := [''AUTHORIZATION'' \<mapsto> [], ''X-CSRF-TOKEN'' \<mapsto> ''tok'']\<rparr>), Other]
      example_world) = Inr (Some ''alice'')
   \<and> fst (login_required example_primitives False 1000 example_handler
      [Other, Request (example_request\<lparr>req_headers := [''AUTHORIZATION'' \<mapsto> ''hmac svc-a'']\<rparr>), Other]
      example_world) = Inl (HTTPUnauthorized ''Authentication failure'' ''Wrong digest'' [])"
proof -
  let ?r1 = "example_request\<lparr>req_headers := [''AUTHORIZATION'' \<mapsto> [], ''X-CSRF-TOKEN'' \<mapsto> ''tok'']\<rparr>"
  let ?r2 = "example_request\<lparr>req_headers := [''AUTHORIZATION'' \<mapsto> ''hmac svc-a'']\<rparr>"
  have f1: "find_request 0 [Other, Request ?r1, Other] = Some (Suc 0)"
    and f2: "find_request 0 [Other, Request ?r2, Other] = Some (Suc 0)"
    by simp_all
  have n1: "[Other, Request ?r1, Other] ! Suc 0 = Request ?r1"
    and n2: "[Other, Request ?r2, Other] ! Suc 0 = Request ?r2"
    by simp_all
  have h1: "get_header ?r1 ''AUTHORIZATION'' = Some []"
    and h2: "get_header ?r2 ''AUTHORIZATION'' = Some ''hmac svc-a''"
    by (simp_all add: get_header_def)
  have s: "beaker_session (req_env ?r1) = Some [''user'' \<mapsto> ''alice'', ''_id'' \<mapsto> ''s1'']"
    by (simp add: example_request_def)
  have a: "authenticate_user False ?r1 example_world
             = (Inr (), context_set ?r1 ''user'' ''alice'', cursor_execute (db_connect example_world))"
    by (simp add: authenticate_user_def authenticate_user_inner_cases [OF s] example_tokens)
  have b: "authenticate_application example_primitives 1000 ''hmac svc-a'' ?r2 example_world
             = (Inl (HTTPUnauthorized ''Authentication failure'' ''Wrong digest'' []), ?r2, example_world)"
    by (simp add: authenticate_application_def startswith_def example_request_def
        split_colon_1_def unpack2_def wrong_digest_def)
  show ?thesis
    using login_required_routing [OF f1 n1, of example_primitives False 1000 example_handler example_world]
      login_required_routing [OF f2 n2, of example_primitives False 1000 example_handler example_world]
    by (simp add: h1 h2 a b example_handler_def context_set_def)
qed

section \<open>A session without an id\<close>

text \<open>
  C10. Both \<^verbatim>\<open>session['user']\<close> and \<^verbatim>\<open>session['_id']\<close> are read inside the \<^verbatim>\<open>try\<close>, so a
  session that lacks either key fails with \<^verbatim>\<open>HTTPUnauthorized\<close> and the description
  \<^verbatim>\<open>User must be logged in\<close>, never with one of the two CSRF errors; no query has been
  executed by then.
\<close>

theorem session_key_errors:
  assumes "beaker_session (req_env req) = Some session"
    and "session ''user'' = None \<or> session ''_id'' = None"
  shows "fst (authenticate_user_inner req w) =
           Inl (HTTPUnauthorized ''Unauthorized'' ''User must be logged in'' [])
       \<and> queries (snd (snd (authenticate_user_inner req w))) = queries w"
  using assms(2)
  by (auto simp: authenticate_user_inner_cases [OF assms(1)] must_be_logged_in_def
        split: option.splits)

theorem session_key_errors_witness:
  "fst (authenticate_user_inner
          (example_request\<lparr>req_env := (req_env example_request)
             \<lparr>beaker_session := Some [''user'' \<mapsto> ''alice'']\<rparr>\<rparr>) example_world)
     = Inl (HTTPUnauthorized ''Unauthorized'' ''User must be logged in'' [])
   \<and> queries (snd (snd (authenticate_user_inner
          (example_request\<lparr>req_env := (req_env example_request)
             \<lparr>beaker_session := Some [''user'' \<mapsto> ''alice'']\<rparr>\<rparr>) example_world)))
     = queries example_world"
  using session_key_errors [of "example_request\<lparr>req_env := (req_env example_request)
             \<lparr>beaker_session := Some [''user'' \<mapsto> ''alice'']\<rparr>\<rparr>" "[''user'' \<mapsto> ''alice'']" example_world]
  by simp

end
